theory Spec2Isabelle
  imports Complex_Main "HOL-Library.Multiset" "HOL-Library.List_Lexorder" "HOL-Library.Char_ord"
begin

section \<open>Values of the host language\<close>

text \<open>
  A JavaScript number is a double: not-a-number, an infinity, or a finite value. Finite
  values are embedded as reals; where an arithmetic result has to be rounded to a double,
  the rounding is a parameter \<open>rnd\<close> of the operation, so every theorem below holds for any
  rounding (round-to-nearest with overflow to an infinity included). Signed zeros are not
  distinguished: \<open>-0 === 0\<close> holds in the source language as well.
\<close>

datatype jsnum = NaN | NInf | Fin real | PInf

text \<open>
  The payload of a file is whatever \<open>JSON.parse\<close> returned (typed \<open>any\<close> in the source): null,
  a boolean, a number, a string, an array or an object with its own properties in insertion
  order. \<open>Undefined\<close> is the value of a missing property; it also occurs as a property value
  of the objects the extractors build.
\<close>

datatype jsv =
    Undefined
  | JNull
  | JBool bool
  | JNum jsnum
  | JStr string
  | JArr "jsv list"
  | JObj "(string \<times> jsv) list"

datatype js_error = TypeError | RangeError

type_synonym 'a res = "js_error + 'a"

definition bindE :: "'a res \<Rightarrow> ('a \<Rightarrow> 'b res) \<Rightarrow> 'b res" where
  "bindE m f = (case m of Inl e \<Rightarrow> Inl e | Inr a \<Rightarrow> f a)"

fun mapE :: "('a \<Rightarrow> 'b res) \<Rightarrow> 'a list \<Rightarrow> 'b list res" where
  "mapE f [] = Inr []"
| "mapE f (x # xs) =
     (case f x of
        Inl e \<Rightarrow> Inl e
      | Inr y \<Rightarrow> (case mapE f xs of Inl e \<Rightarrow> Inl e | Inr ys \<Rightarrow> Inr (y # ys)))"

text \<open>Truthiness (\<open>ToBoolean\<close>), \<open>typeof v === 'object'\<close> and \<open>Array.isArray\<close>.\<close>

fun truthy :: "jsv \<Rightarrow> bool" where
  "truthy Undefined = False"
| "truthy JNull = False"
| "truthy (JBool b) = b"
| "truthy (JNum n) = (n \<noteq> NaN \<and> n \<noteq> Fin 0)"
| "truthy (JStr s) = (s \<noteq> [])"
| "truthy (JArr xs) = True"
| "truthy (JObj kvs) = True"

fun typeof_object :: "jsv \<Rightarrow> bool" where
  "typeof_object JNull = True"
| "typeof_object (JArr xs) = True"
| "typeof_object (JObj kvs) = True"
| "typeof_object v = False"

fun isArray :: "jsv \<Rightarrow> bool" where
  "isArray (JArr xs) = True"
| "isArray v = False"

fun elems :: "jsv \<Rightarrow> jsv list" where
  "elems (JArr xs) = xs"
| "elems v = []"

fun nullish :: "jsv \<Rightarrow> bool" where
  "nullish Undefined = True"
| "nullish JNull = True"
| "nullish v = False"

text \<open>
  Reading a named property. On \<open>null\<close> and \<open>undefined\<close> the read throws a TypeError; on an
  object it yields the own property or \<open>undefined\<close>; on an array or a primitive it yields
  \<open>undefined\<close> for every property name this program reads (none of them is \<open>length\<close>, an
  index or a prototype method). \<open>getProp\<close> is the read on a value already known not to be
  nullish, as under a guard \<open>item && ...\<close>.
\<close>

fun getProp :: "jsv \<Rightarrow> string \<Rightarrow> jsv" where
  "getProp (JObj kvs) k = (case map_of kvs k of None \<Rightarrow> Undefined | Some v \<Rightarrow> v)"
| "getProp v k = Undefined"

definition readProp :: "jsv \<Rightarrow> string \<Rightarrow> jsv res" where
  "readProp v k = (if nullish v then Inl TypeError else Inr (getProp v k))"

text \<open>\<open>a?.k\<close>: \<open>undefined\<close> on a nullish \<open>a\<close>, the property otherwise.\<close>

definition optProp :: "jsv \<Rightarrow> string \<Rightarrow> jsv" where
  "optProp v k = (if nullish v then Undefined else getProp v k)"

text \<open>\<open>a || b\<close> on values.\<close>

definition js_or :: "jsv \<Rightarrow> jsv \<Rightarrow> jsv" where
  "js_or a b = (if truthy a then a else b)"

text \<open>An object literal's property list after \<open>{...obj, k: v}\<close>: an own key keeps its place.\<close>

fun setProp :: "(string \<times> jsv) list \<Rightarrow> string \<Rightarrow> jsv \<Rightarrow> (string \<times> jsv) list" where
  "setProp [] k v = [(k, v)]"
| "setProp ((k', v') # kvs) k v =
     (if k' = k then (k, v) # kvs else (k', v') # setProp kvs k v)"

fun ownProps :: "jsv \<Rightarrow> (string \<times> jsv) list" where
  "ownProps (JObj kvs) = kvs"
| "ownProps v = []"

section \<open>Dates\<close>

text \<open>
  \<open>Date.parse\<close> on a string (and on the string an array or object converts to) is defined by
  the host for all but one format, and \<open>toISOString\<close> formats a time value; both are taken
  as parameters. What the language fixes is modelled: \<open>new Date(undefined)\<close> is invalid,
  \<open>new Date(null)\<close> is the epoch, a number is its own time value after \<open>TimeClip\<close>, and
  \<open>toISOString\<close> throws a RangeError on an invalid date.
\<close>

record date_host =
  Date_parse :: "jsv \<Rightarrow> jsnum"
  Date_iso :: "real \<Rightarrow> string"

definition TimeClip :: "jsnum \<Rightarrow> jsnum" where
  "TimeClip n =
     (case n of
        Fin t \<Rightarrow>
          if \<bar>t\<bar> > 8640000000000000 then NaN
          else Fin (of_int (if 0 \<le> t then \<lfloor>t\<rfloor> else \<lceil>t\<rceil>))
      | _ \<Rightarrow> NaN)"

text \<open>\<open>new Date(v).getTime()\<close>\<close>

fun Date_getTime :: "date_host \<Rightarrow> jsv \<Rightarrow> jsnum" where
  "Date_getTime h Undefined = NaN"
| "Date_getTime h JNull = Fin 0"
| "Date_getTime h (JBool b) = Fin (if b then 1 else 0)"
| "Date_getTime h (JNum n) = TimeClip n"
| "Date_getTime h v = TimeClip (Date_parse h v)"

text \<open>\<open>new Date(v).toISOString()\<close>\<close>

definition Date_toISOString :: "date_host \<Rightarrow> jsv \<Rightarrow> jsv res" where
  "Date_toISOString h v =
     (case Date_getTime h v of
        Fin t \<Rightarrow> Inr (JStr (Date_iso h t))
      | _ \<Rightarrow> Inl RangeError)"

section \<open>Record extractors (garminParser.ts, the later revision in the file)\<close>

text \<open>The filter callback \<open>item => item && typeof item === 'object'\<close>.\<close>

definition object_item :: "jsv \<Rightarrow> bool" where
  "object_item item = (truthy item \<and> typeof_object item)"

text \<open>
  The loop \<open>for (const prop of possibleArrays)\<close> of parseSleepData: the first listed property
  that holds an array decides.
\<close>

fun probeSleep :: "jsv \<Rightarrow> string list \<Rightarrow> jsv list res" where
  "probeSleep data [] = Inr []"
| "probeSleep data (p # ps) =
     bindE (readProp data p) (\<lambda>v.
       if isArray v then Inr (filter object_item (elems v)) else probeSleep data ps)"

definition parseSleepData :: "jsv \<Rightarrow> jsv list res" where
  "parseSleepData data =
     (if isArray data then Inr (filter object_item (elems data))
      else if truthy data \<and> typeof_object data
        then probeSleep data [''sleepData'', ''data'', ''records'', ''items'']
      else Inr [])"

text \<open>
  \<open>list.find(agg => agg.type === 'TOTAL')\<close>: the callback reads \<open>agg.type\<close>, which throws on a
  null element.
\<close>

fun findTotal :: "jsv list \<Rightarrow> jsv res" where
  "findTotal [] = Inr Undefined"
| "findTotal (agg # aggs) =
     bindE (readProp agg ''type'') (\<lambda>t.
       if t = JStr ''TOTAL'' then Inr agg else findTotal aggs)"

text \<open>
  \<open>data.allDayStress?.aggregatorList?.find(...)\<close>. The chain short-circuits on a nullish
  link only: a non-nullish \<open>aggregatorList\<close> that is not an array has no callable \<open>find\<close>, and
  the call throws a TypeError. The source repeats this expression for each of the ten
  stress fields; it has no effect, so the model evaluates it once.
\<close>

definition totalAggregate :: "jsv \<Rightarrow> jsv res" where
  "totalAggregate data =
     bindE (readProp data ''allDayStress'') (\<lambda>ads.
       let lst = optProp ads ''aggregatorList'' in
       if nullish lst then Inr Undefined
       else if isArray lst then findTotal (elems lst)
       else Inl TypeError)"

text \<open>Properties copied one by one: (name in the record, name in the payload).\<close>

fun readProps :: "jsv \<Rightarrow> (string \<times> string) list \<Rightarrow> (string \<times> jsv) list res" where
  "readProps d [] = Inr []"
| "readProps d ((out, src) # ks) =
     bindE (readProp d src) (\<lambda>v.
       bindE (readProps d ks) (\<lambda>rest. Inr ((out, v) # rest)))"

definition same :: "string list \<Rightarrow> (string \<times> string) list" where
  "same ks = map (\<lambda>k. (k, k)) ks"

definition wellnessHead :: "(string \<times> string) list" where
  "wellnessHead = same
     [''userProfilePK'', ''calendarDate'', ''totalSteps'', ''totalKilocalories'',
      ''bmrKilocalories'', ''wellnessKilocalories'', ''activeKilocalories'',
      ''floorsAscended'', ''floorsDescended'', ''floorsAscendedInMeters'',
      ''floorsDescendedInMeters'', ''minHeartRate'', ''maxHeartRate'', ''restingHeartRate'',
      ''lastSevenDaysAvgRestingHeartRate'', ''source'']"

definition wellnessStress :: "(string \<times> string) list" where
  "wellnessStress =
     [(''averageStressLevel'', ''averageStressLevel''),
      (''maxStressLevel'', ''maxStressLevel''),
      (''stressDuration'', ''stressDuration''),
      (''restStressDuration'', ''restDuration''),
      (''activityStressDuration'', ''activityDuration''),
      (''uncategorizedStressDuration'', ''uncategorizedDuration''),
      (''totalStressDuration'', ''totalDuration''),
      (''lowStressDuration'', ''lowDuration''),
      (''mediumStressDuration'', ''mediumDuration''),
      (''highStressDuration'', ''highDuration'')]"

definition wellnessTail :: "(string \<times> string) list" where
  "wellnessTail = same
     [''stressPercentage'', ''restStressPercentage'', ''activityStressPercentage'',
      ''uncategorizedStressPercentage'', ''lowStressPercentage'', ''mediumStressPercentage'',
      ''highStressPercentage'', ''stressQualifier'', ''measurableAwakeDuration'',
      ''measurableAsleepDuration'', ''lastSyncTimestampGMT'', ''allDayStress'',
      ''bodyBattery'']"

definition parseWellnessData :: "jsv \<Rightarrow> jsv option res" where
  "parseWellnessData data =
     (if truthy data \<and> typeof_object data \<and> truthy (getProp data ''calendarDate'') then
        bindE (readProps data wellnessHead) (\<lambda>hd_ps.
        bindE (totalAggregate data) (\<lambda>whole.
        bindE (readProps data wellnessTail) (\<lambda>tl_ps.
          Inr (Some (JObj (hd_ps
                 @ map (\<lambda>(out, src). (out, optProp whole src)) wellnessStress
                 @ tl_ps))))))
      else Inr None)"

text \<open>
  parseHydrationData: the items with a defined \<open>valueInML\<close>, each rebuilt; a missing
  \<open>timestampGMT\<close> is synthesised from \<open>calendarDate\<close>, and \<open>toISOString\<close> throws when that is
  not a valid date.
\<close>

definition hydrationItem :: "jsv \<Rightarrow> bool" where
  "hydrationItem item =
     (truthy item \<and> typeof_object item \<and> getProp item ''valueInML'' \<noteq> Undefined)"

definition hydrationRecord :: "date_host \<Rightarrow> jsv \<Rightarrow> jsv res" where
  "hydrationRecord h item =
     bindE (readProp item ''calendarDate'') (\<lambda>cd.
     bindE (readProp item ''valueInML'') (\<lambda>ml.
     bindE (readProp item ''timestampGMT'') (\<lambda>ts.
     bindE (if truthy ts then Inr ts else Date_toISOString h cd) (\<lambda>stamp.
       Inr (JObj [(''calendarDate'', cd), (''valueInML'', ml), (''timestampGMT'', stamp)])))))"

definition parseHydrationData :: "date_host \<Rightarrow> jsv \<Rightarrow> jsv list res" where
  "parseHydrationData h data =
     (if isArray data then mapE (hydrationRecord h) (filter hydrationItem (elems data))
      else Inr [])"

text \<open>parseActivities: the record built from one entry of a nested export list.\<close>

definition activityRest :: "(string \<times> string) list" where
  "activityRest =
     same [''distance'', ''duration'', ''elapsedDuration'', ''movingDuration'',
           ''elevationGain'', ''elevationLoss'']
     @ [(''averageSpeed'', ''avgSpeed'')]
     @ same [''maxSpeed'', ''calories'', ''bmrCalories'']
     @ [(''averageHR'', ''avgHr''), (''maxHR'', ''maxHr''),
        (''averageRunCadence'', ''avgRunCadence'')]
     @ same [''maxRunCadence'']
     @ [(''averageBikeCadence'', ''avgBikeCadence'')]
     @ same [''maxBikeCadence'', ''strokes'', ''avgStrokes'', ''poolLength'',
             ''unitOfPoolLength'', ''locationName'', ''avgPower'', ''maxPower'', ''minPower'',
             ''normPower'', ''trainingStressScore'', ''intensityFactor'', ''avgVerticalSpeed'',
             ''lapCount'', ''endLatitude'', ''endLongitude'', ''startLatitude'',
             ''startLongitude'']"

definition activityRecord :: "date_host \<Rightarrow> jsv \<Rightarrow> jsv res" where
  "activityRecord h activity =
     bindE (readProp activity ''activityType'') (\<lambda>ty.
     bindE (readProp activity ''sportType'') (\<lambda>sport.
     bindE (readProp activity ''startTimeGmt'') (\<lambda>gmt.
     bindE (readProp activity ''beginTimestamp'') (\<lambda>beginTs.
     bindE (Date_toISOString h (js_or gmt beginTs)) (\<lambda>startGMT.
     bindE (readProp activity ''startTimeLocal'') (\<lambda>loc.
     bindE (Date_toISOString h (js_or loc beginTs)) (\<lambda>startLocal.
     bindE (readProp activity ''name'') (\<lambda>nm.
     bindE (readProps activity activityRest) (\<lambda>rest.
       Inr (JObj ([(''activityType'', js_or ty sport),
                   (''startTimeGMT'', startGMT),
                   (''startTimeLocal'', startLocal),
                   (''activityName'', js_or nm ty)] @ rest)))))))))))"

text \<open>The callback of the outer \<open>data.forEach\<close>: the activities one wrapper object adds.\<close>

definition exportItem :: "date_host \<Rightarrow> jsv \<Rightarrow> jsv list res" where
  "exportItem h item =
     bindE (readProp item ''summarizedActivitiesExport'') (\<lambda>ex.
       if truthy ex \<and> isArray ex then mapE (activityRecord h) (elems ex) else Inr [])"

definition activityItem :: "jsv \<Rightarrow> bool" where
  "activityItem item =
     (truthy item \<and> typeof_object item \<and> truthy (getProp item ''activityType'')
      \<and> truthy (getProp item ''startTimeGMT''))"

fun probeActivities :: "jsv \<Rightarrow> string list \<Rightarrow> jsv list res" where
  "probeActivities data [] = Inr []"
| "probeActivities data (p # ps) =
     bindE (readProp data p) (\<lambda>v.
       if isArray v then Inr (filter activityItem (elems v)) else probeActivities data ps)"

text \<open>
  The first test reads \<open>data[0].summarizedActivitiesExport\<close> of a non-empty array without
  looking at \<open>data[0]\<close> first.
\<close>

definition nestedExport :: "jsv \<Rightarrow> bool res" where
  "nestedExport data =
     (if isArray data \<and> length (elems data) > 0 then
        bindE (readProp (hd (elems data)) ''summarizedActivitiesExport'') (\<lambda>ex. Inr (truthy ex))
      else Inr False)"

definition parseActivities :: "date_host \<Rightarrow> jsv \<Rightarrow> jsv list res" where
  "parseActivities h data =
     bindE (nestedExport data) (\<lambda>nested.
       if nested then bindE (mapE (exportItem h) (elems data)) (\<lambda>yss. Inr (concat yss))
       else if isArray data then Inr (filter activityItem (elems data))
       else if truthy data \<and> typeof_object data
         then probeActivities data [''summarizedActivities'', ''activities'', ''data'', ''records'']
       else Inr [])"

text \<open>
  parseMetricsData. The spread \<open>{...data, calendarDate: d}\<close> is reached only when \<open>data\<close> has
  a truthy \<open>calendarDate\<close> or \<open>metricsDate\<close>, hence only for a plain object.
\<close>

definition parseMetricsData :: "jsv \<Rightarrow> jsv option res" where
  "parseMetricsData data =
     (if truthy data \<and> typeof_object data then
        (let d = js_or (getProp data ''calendarDate'') (getProp data ''metricsDate'') in
         if truthy d then Inr (Some (JObj (setProp (ownProps data) ''calendarDate'' d)))
         else if isArray data \<and> length (elems data) > 0 then
           bindE (readProp (hd (elems data)) ''calendarDate'') (\<lambda>cd.
             if truthy cd then Inr (Some (hd (elems data))) else Inr None)
         else Inr None)
      else Inr None)"

section \<open>File names\<close>

text \<open>
  \<open>toLowerCase\<close> on the ASCII letters (a file name outside ASCII keeps its other bytes),
  \<open>includes\<close> and \<open>endsWith\<close>.
\<close>

definition lower_char :: "char \<Rightarrow> char" where
  "lower_char c =
     (case map_of (zip ''ABCDEFGHIJKLMNOPQRSTUVWXYZ'' ''abcdefghijklmnopqrstuvwxyz'') c of
        Some l \<Rightarrow> l
      | None \<Rightarrow> c)"

definition toLowerCase :: "string \<Rightarrow> string" where
  "toLowerCase s = map lower_char s"

fun startsWith :: "string \<Rightarrow> string \<Rightarrow> bool" where
  "startsWith s [] = True"
| "startsWith [] (p # ps) = False"
| "startsWith (c # cs) (p # ps) = (c = p \<and> startsWith cs ps)"

fun str_includes :: "string \<Rightarrow> string \<Rightarrow> bool" where
  "str_includes [] sub = (sub = [])"
| "str_includes (c # cs) sub = (startsWith (c # cs) sub \<or> str_includes cs sub)"

definition endsWith :: "string \<Rightarrow> string \<Rightarrow> bool" where
  "endsWith s suf = startsWith (rev s) (rev suf)"

text \<open>
  The chain of filename tests of parseGarminData, first match first. The last two outcomes
  differ in logging only: a \<open>.json\<close> file no test claims is logged as unknown, any other
  file is passed over silently.
\<close>

datatype category = Sleep | Wellness | Hydration | Activities | Metrics | UnknownJson | Other

definition classify :: "string \<Rightarrow> category" where
  "classify filename =
     (if str_includes (toLowerCase filename) ''sleep'' \<and> endsWith filename ''.json'' then Sleep
      else if str_includes filename ''UDSFile_'' then Wellness
      else if str_includes (toLowerCase filename) ''hydration'' then Hydration
      else if str_includes (toLowerCase filename) ''summarizedactivities''
              \<or> str_includes filename ''_summarizedActivities'' then Activities
      else if str_includes filename ''MetricsMaxMetData_'' then Metrics
      else if endsWith filename ''.json'' then UnknownJson
      else Other)"

section \<open>The aggregator parseGarminData\<close>

record GarminDataExport =
  sleepData :: "jsv list"
  wellnessData :: "jsv list"
  hydrationData :: "jsv list"
  activities :: "jsv list"
  metricsData :: "jsv list"

text \<open>
  An entry of the archive: its name, the directory flag, and what reading it as text and
  parsing the text gives: the read fails, the text is not JSON, or a payload.
\<close>

datatype file_body = ReadError | NotJson | Json jsv

record zip_entry =
  name :: string
  dir :: bool
  body :: file_body

text \<open>
  The \<open>forEach\<close> of the wellness branch pushes record by record; an exception thrown by
  parseWellnessData leaves the loop for the enclosing \<open>catch\<close>, and what was pushed stays.
\<close>

fun pushWellness :: "jsv list \<Rightarrow> jsv list \<Rightarrow> jsv list" where
  "pushWellness acc [] = acc"
| "pushWellness acc (r # rs) =
     (case parseWellnessData r of
        Inl e \<Rightarrow> acc
      | Inr None \<Rightarrow> pushWellness acc rs
      | Inr (Some w) \<Rightarrow> pushWellness (acc @ [w]) rs)"

text \<open>
  The body of the outer \<open>try\<close> after a successful \<open>JSON.parse\<close>: the branch the file name
  selects extends one collection. An exception of an extractor is caught by the outer
  \<open>catch\<close>, which only logs.
\<close>

definition processFile :: "date_host \<Rightarrow> string \<Rightarrow> jsv \<Rightarrow> GarminDataExport \<Rightarrow> GarminDataExport" where
  "processFile h filename data result =
     (case classify filename of
        Sleep \<Rightarrow>
          (case parseSleepData data of
             Inl e \<Rightarrow> result
           | Inr xs \<Rightarrow> result\<lparr>sleepData := sleepData result @ xs\<rparr>)
      | Wellness \<Rightarrow>
          (if isArray data
           then result\<lparr>wellnessData := pushWellness (wellnessData result) (elems data)\<rparr>
           else result)
      | Hydration \<Rightarrow>
          (case parseHydrationData h data of
             Inl e \<Rightarrow> result
           | Inr xs \<Rightarrow> result\<lparr>hydrationData := hydrationData result @ xs\<rparr>)
      | Activities \<Rightarrow>
          (case parseActivities h data of
             Inl e \<Rightarrow> result
           | Inr xs \<Rightarrow> result\<lparr>activities := activities result @ xs\<rparr>)
      | Metrics \<Rightarrow>
          (if truthy data \<and> typeof_object data then
             (case parseMetricsData data of
                Inr (Some m) \<Rightarrow> result\<lparr>metricsData := metricsData result @ [m]\<rparr>
              | _ \<Rightarrow> result)
           else result)
      | UnknownJson \<Rightarrow> result
      | Other \<Rightarrow> result)"

text \<open>
  The state of the loop over \<open>Object.keys(zip.files)\<close>: the result so far, the counter
  \<open>processedFiles\<close>, and the values passed to \<open>onProgress\<close> so far, oldest first. \<open>n_files\<close> is
  \<open>files.length\<close>, directories included. A directory and a file that is not JSON both
  \<open>continue\<close>, which skips the counter and the callback.
\<close>

type_synonym loop_state = "GarminDataExport \<times> nat \<times> real list"

definition counted :: "nat \<Rightarrow> loop_state \<Rightarrow> GarminDataExport \<Rightarrow> loop_state" where
  "counted n_files st result =
     (case st of (old, processedFiles, progress) \<Rightarrow>
        (result, processedFiles + 1, progress @ [real (processedFiles + 1) / real n_files]))"

definition step :: "date_host \<Rightarrow> nat \<Rightarrow> loop_state \<Rightarrow> zip_entry \<Rightarrow> loop_state" where
  "step h n_files st file =
     (if dir file then st
      else case body file of
             ReadError \<Rightarrow> counted n_files st (fst st)
           | NotJson \<Rightarrow> st
           | Json data \<Rightarrow> counted n_files st (processFile h (name file) data (fst st)))"

text \<open>
  \<open>Array.prototype.sort\<close> with a comparator: stable; \<open>a\<close> stays before \<open>b\<close> unless the
  comparator's value on them is positive, and a NaN value counts as \<open>+0\<close>. The model is the
  stable insertion sort, which is the one result the language allows whenever the comparator
  is consistent.
\<close>

fun positive :: "jsnum \<Rightarrow> bool" where
  "positive (Fin x) = (0 < x)"
| "positive PInf = True"
| "positive n = False"

fun insertBy :: "('a \<Rightarrow> 'a \<Rightarrow> jsnum) \<Rightarrow> 'a \<Rightarrow> 'a list \<Rightarrow> 'a list" where
  "insertBy cmp x [] = [x]"
| "insertBy cmp x (y # ys) =
     (if positive (cmp x y) then y # insertBy cmp x ys else x # y # ys)"

definition sortBy :: "('a \<Rightarrow> 'a \<Rightarrow> jsnum) \<Rightarrow> 'a list \<Rightarrow> 'a list" where
  "sortBy cmp xs = foldr (insertBy cmp) xs []"

text \<open>
  The difference of two time values, as the comparators compute it. Time values are
  integers of magnitude at most 8.64e15, so the rounded difference has the sign of the
  exact one.
\<close>

fun timeDiff :: "jsnum \<Rightarrow> jsnum \<Rightarrow> jsnum" where
  "timeDiff (Fin a) (Fin b) = Fin (a - b)"
| "timeDiff a b = NaN"

text \<open>\<open>(a, b) => new Date(a.k).getTime() - new Date(b.k).getTime()\<close>\<close>

definition byDate :: "date_host \<Rightarrow> string \<Rightarrow> jsv \<Rightarrow> jsv \<Rightarrow> jsnum" where
  "byDate h k a b = timeDiff (Date_getTime h (getProp a k)) (Date_getTime h (getProp b k))"

definition emptyExport :: GarminDataExport where
  "emptyExport =
     \<lparr>sleepData = [], wellnessData = [], hydrationData = [], activities = [], metricsData = []\<rparr>"

definition sortExport :: "date_host \<Rightarrow> GarminDataExport \<Rightarrow> GarminDataExport" where
  "sortExport h result =
     \<lparr>sleepData = sortBy (byDate h ''sleepStartTimestampGMT'') (sleepData result),
      wellnessData = sortBy (byDate h ''calendarDate'') (wellnessData result),
      hydrationData = sortBy (byDate h ''calendarDate'') (hydrationData result),
      activities = sortBy (byDate h ''startTimeGmt'') (activities result),
      metricsData = sortBy (byDate h ''calendarDate'') (metricsData result)\<rparr>"

text \<open>
  parseGarminData returns the sorted result; the second component is the sequence of
  values the progress callback received.
\<close>

definition parseGarminData :: "date_host \<Rightarrow> zip_entry list \<Rightarrow> GarminDataExport \<times> real list" where
  "parseGarminData h files =
     (case foldl (step h (length files)) (emptyExport, 0, []) files of
        (result, processedFiles, progress) \<Rightarrow> (sortExport h result, progress))"

section \<open>Predicates on stored records\<close>

text \<open>
  The tests an element passes before a branch of the aggregator stores it, read off the
  stored record: a wellness or metrics record has a truthy \<open>calendarDate\<close>, a hydration
  record a defined \<open>valueInML\<close> and a \<open>timestampGMT\<close> that is neither null nor undefined, an
  activity a \<open>startTimeGMT\<close> that is neither null nor undefined.
\<close>

definition datedDay :: "jsv \<Rightarrow> bool" where
  "datedDay r = truthy (getProp r ''calendarDate'')"




text \<open>
  A per-day object of a daily-summary list: an object whose \<open>allDayStress.aggregatorList\<close>,
  where present, is an array without null entries. \<open>wellnessRecord\<close> names the record
  parseWellnessData returns for an element.
\<close>

fun isObject :: "jsv \<Rightarrow> bool" where
  "isObject (JObj kvs) = True"
| "isObject v = False"

definition perDayObject :: "jsv \<Rightarrow> bool" where
  "perDayObject d =
     (isObject d \<and>
      (let lst = optProp (getProp d ''allDayStress'') ''aggregatorList'' in
       nullish lst \<or> (isArray lst \<and> list_all (\<lambda>agg. \<not> nullish agg) (elems lst))))"

definition wellnessRecord :: "jsv \<Rightarrow> jsv" where
  "wellnessRecord d = (case parseWellnessData d of Inr (Some w) \<Rightarrow> w | _ \<Rightarrow> Undefined)"


section \<open>Arithmetic on numbers\<close>

text \<open>
  The operations of the language on doubles. The special values follow the language; on
  finite operands the exact real result is handed to the rounding \<open>rnd\<close>. A zero divisor
  counts as \<open>+0\<close>.
\<close>

type_synonym rounding = "real \<Rightarrow> jsnum"

fun jneg :: "jsnum \<Rightarrow> jsnum" where
  "jneg NaN = NaN"
| "jneg NInf = PInf"
| "jneg PInf = NInf"
| "jneg (Fin a) = Fin (- a)"

fun jadd :: "rounding \<Rightarrow> jsnum \<Rightarrow> jsnum \<Rightarrow> jsnum" where
  "jadd rnd (Fin a) (Fin b) = rnd (a + b)"
| "jadd rnd NaN b = NaN"
| "jadd rnd a NaN = NaN"
| "jadd rnd PInf NInf = NaN"
| "jadd rnd NInf PInf = NaN"
| "jadd rnd PInf b = PInf"
| "jadd rnd a PInf = PInf"
| "jadd rnd NInf b = NInf"
| "jadd rnd a NInf = NInf"

definition jsub :: "rounding \<Rightarrow> jsnum \<Rightarrow> jsnum \<Rightarrow> jsnum" where
  "jsub rnd a b = jadd rnd a (jneg b)"

fun jsign :: "jsnum \<Rightarrow> int" where
  "jsign (Fin a) = (if a < 0 then - 1 else if a = 0 then 0 else 1)"
| "jsign PInf = 1"
| "jsign NInf = - 1"
| "jsign NaN = 0"

fun jmul :: "rounding \<Rightarrow> jsnum \<Rightarrow> jsnum \<Rightarrow> jsnum" where
  "jmul rnd (Fin a) (Fin b) = rnd (a * b)"
| "jmul rnd NaN b = NaN"
| "jmul rnd a NaN = NaN"
| "jmul rnd a b =
     (if jsign a * jsign b = 0 then NaN else if 0 < jsign a * jsign b then PInf else NInf)"

fun jdiv :: "rounding \<Rightarrow> jsnum \<Rightarrow> jsnum \<Rightarrow> jsnum" where
  "jdiv rnd NaN b = NaN"
| "jdiv rnd a NaN = NaN"
| "jdiv rnd (Fin a) (Fin b) =
     (if b = 0 then (if a = 0 then NaN else if 0 < a then PInf else NInf) else rnd (a / b))"
| "jdiv rnd (Fin a) b = Fin 0"
| "jdiv rnd PInf (Fin b) = (if 0 \<le> b then PInf else NInf)"
| "jdiv rnd NInf (Fin b) = (if 0 \<le> b then NInf else PInf)"
| "jdiv rnd a b = NaN"

text \<open>\<open>Math.sqrt\<close>, \<open>Math.abs\<close>, \<open>Math.min\<close>, \<open>Math.max\<close>, \<open>Math.pow\<close> and \<open>Math.PI\<close>.\<close>

fun jsqrt :: "rounding \<Rightarrow> jsnum \<Rightarrow> jsnum" where
  "jsqrt rnd (Fin a) = (if a < 0 then NaN else rnd (sqrt a))"
| "jsqrt rnd PInf = PInf"
| "jsqrt rnd a = NaN"

fun jabs :: "jsnum \<Rightarrow> jsnum" where
  "jabs (Fin a) = Fin \<bar>a\<bar>"
| "jabs NaN = NaN"
| "jabs a = PInf"

fun jle :: "jsnum \<Rightarrow> jsnum \<Rightarrow> bool" where
  "jle (Fin a) (Fin b) = (a \<le> b)"
| "jle NaN b = False"
| "jle a NaN = False"
| "jle NInf b = True"
| "jle a PInf = True"
| "jle a b = False"

definition jmin :: "jsnum \<Rightarrow> jsnum \<Rightarrow> jsnum" where
  "jmin a b = (if a = NaN \<or> b = NaN then NaN else if jle a b then a else b)"

definition jmax :: "jsnum \<Rightarrow> jsnum \<Rightarrow> jsnum" where
  "jmax a b = (if a = NaN \<or> b = NaN then NaN else if jle a b then b else a)"

definition wholeNumber :: "real \<Rightarrow> bool" where
  "wholeNumber e = (e = of_int \<lfloor>e\<rfloor>)"

fun jpow :: "rounding \<Rightarrow> jsnum \<Rightarrow> jsnum \<Rightarrow> jsnum" where
  "jpow rnd b NaN = NaN"
| "jpow rnd b (Fin e) =
     (if e = 0 then Fin 1
      else case b of
        NaN \<Rightarrow> NaN
      | PInf \<Rightarrow> (if 0 < e then PInf else Fin 0)
      | NInf \<Rightarrow> (if 0 < e then (if wholeNumber e \<and> odd \<lfloor>e\<rfloor> then NInf else PInf) else Fin 0)
      | Fin a \<Rightarrow>
          if a = 0 then (if 0 < e then Fin 0 else PInf)
          else if 0 < a then rnd (a powr e)
          else if wholeNumber e then rnd (a powi \<lfloor>e\<rfloor>)
          else NaN)"
| "jpow rnd b PInf =
     (case b of
        NaN \<Rightarrow> NaN
      | Fin a \<Rightarrow> (if 1 < \<bar>a\<bar> then PInf else if \<bar>a\<bar> = 1 then NaN else Fin 0)
      | _ \<Rightarrow> PInf)"
| "jpow rnd b NInf =
     (case b of
        NaN \<Rightarrow> NaN
      | Fin a \<Rightarrow> (if 1 < \<bar>a\<bar> then Fin 0 else if \<bar>a\<bar> = 1 then NaN else PInf)
      | _ \<Rightarrow> Fin 0)"

section \<open>The correlation engine (correlationAnalysis.ts)\<close>

text \<open>
  The three \<open>reduce\<close> calls, each a fold from the left starting at 0. The fold with the
  index reads \<open>y[i]\<close> for the positions of \<open>x\<close>; it runs only when both lengths agree.
\<close>

definition sumOf :: "rounding \<Rightarrow> jsnum list \<Rightarrow> jsnum" where
  "sumOf rnd xs = foldl (\<lambda>a b. jadd rnd a b) (Fin 0) xs"

definition sumOfProducts :: "rounding \<Rightarrow> jsnum list \<Rightarrow> jsnum list \<Rightarrow> jsnum" where
  "sumOfProducts rnd xs ys =
     foldl (\<lambda>total (xi, yi). jadd rnd total (jmul rnd xi yi)) (Fin 0) (zip xs ys)"

definition sumOfSquares :: "rounding \<Rightarrow> jsnum list \<Rightarrow> jsnum" where
  "sumOfSquares rnd xs = foldl (\<lambda>total xi. jadd rnd total (jmul rnd xi xi)) (Fin 0) xs"

definition numerator :: "rounding \<Rightarrow> jsnum list \<Rightarrow> jsnum list \<Rightarrow> jsnum" where
  "numerator rnd x y =
     (let n = Fin (real (length x)) in
      jsub rnd (jmul rnd n (sumOfProducts rnd x y)) (jmul rnd (sumOf rnd x) (sumOf rnd y)))"

text \<open>The term under the square root, and the denominator, its root.\<close>

definition varianceProduct :: "rounding \<Rightarrow> jsnum list \<Rightarrow> jsnum list \<Rightarrow> jsnum" where
  "varianceProduct rnd x y =
     (let n = Fin (real (length x)) in
      jmul rnd
        (jsub rnd (jmul rnd n (sumOfSquares rnd x)) (jmul rnd (sumOf rnd x) (sumOf rnd x)))
        (jsub rnd (jmul rnd n (sumOfSquares rnd y)) (jmul rnd (sumOf rnd y) (sumOf rnd y))))"

definition denominator :: "rounding \<Rightarrow> jsnum list \<Rightarrow> jsnum list \<Rightarrow> jsnum" where
  "denominator rnd x y = jsqrt rnd (varianceProduct rnd x y)"

definition approximatePValue :: "rounding \<Rightarrow> jsnum \<Rightarrow> jsnum \<Rightarrow> jsnum" where
  "approximatePValue rnd t df =
     (let beta = jmul rnd (jsqrt rnd (jmul rnd (rnd pi) df))
                   (jpow rnd (jadd rnd (Fin 1) (jdiv rnd (jmul rnd t t) df))
                             (jdiv rnd (jneg (jadd rnd df (Fin 1))) (Fin 2)));
          beta' = jdiv rnd beta (jsqrt rnd df)
      in jmin (Fin 1) (jmax (Fin 0) (jmul rnd (Fin 2) beta')))"

text \<open>The result \<open>{ r, pValue }\<close> is the pair \<open>(r, pValue)\<close>.\<close>

definition calculateCorrelation :: "rounding \<Rightarrow> jsnum list \<Rightarrow> jsnum list \<Rightarrow> jsnum \<times> jsnum" where
  "calculateCorrelation rnd x y =
     (if length x \<noteq> length y \<or> length x < 3 then (Fin 0, Fin 1)
      else if denominator rnd x y = Fin 0 then (Fin 0, Fin 1)
      else
        (let n = Fin (real (length x));
             r = jdiv rnd (numerator rnd x y) (denominator rnd x y);
             t = jmul rnd r
                   (jsqrt rnd (jdiv rnd (jsub rnd n (Fin 2))
                                        (jsub rnd (Fin 1) (jmul rnd r r))));
             df = jsub rnd n (Fin 2)
         in (r, approximatePValue rnd (jabs t) df)))"

text \<open>
  \<open>xs[i]\<close> for a number \<open>i\<close>: \<open>undefined\<close> outside the array. The lag is a whole number of
  days.
\<close>

definition elemAt :: "'a list \<Rightarrow> int \<Rightarrow> 'a option" where
  "elemAt xs i = (if 0 \<le> i \<and> i < int (length xs) then Some (xs ! nat i) else None)"

text \<open>The loop \<open>for (let i = lagDays; i < dates.length; i++)\<close>, \<open>n\<close> being \<open>dates.length\<close>.\<close>

function laggedPairs :: "jsnum list \<Rightarrow> jsnum list \<Rightarrow> int \<Rightarrow> int \<Rightarrow> int \<Rightarrow> (jsnum \<times> jsnum) list" where
  "laggedPairs x y n lagDays i =
     (if i < n then
        (case (elemAt x (i - lagDays), elemAt y i) of
           (Some a, Some b) \<Rightarrow> (a, b) # laggedPairs x y n lagDays (i + 1)
         | _ \<Rightarrow> laggedPairs x y n lagDays (i + 1))
      else [])"
  by pat_completeness auto
termination
  by (relation "measure (\<lambda>(x, y, n, lagDays, i). nat (n - i))") auto

definition calculateLaggedCorrelation ::
  "rounding \<Rightarrow> jsnum list \<Rightarrow> jsnum list \<Rightarrow> string list \<Rightarrow> int \<Rightarrow> jsnum \<times> jsnum" where
  "calculateLaggedCorrelation rnd x y dates lagDays =
     (let pairs = laggedPairs x y (int (length dates)) lagDays lagDays in
      if length pairs < 3 then (Fin 0, Fin 1)
      else calculateCorrelation rnd (map fst pairs) (map snd pairs))"

text \<open>
  A data point is a plain object: its \<open>date\<close> and its other own properties. \<open>d[key]\<close>
  reads an own property first and follows the prototype chain otherwise: under a property
  name of \<open>Object.prototype\<close> it yields that method (for \<open>__proto__\<close> the prototype itself),
  a value that is neither undefined nor null and that \<open>Number\<close> turns into NaN; under any
  other name it yields \<open>undefined\<close>.
\<close>

record DataPoint =
  date :: string
  props :: "(string \<times> jsv) list"

datatype propval = Val jsv | Inherited

definition objectPrototype :: "string list" where
  "objectPrototype =
     [''constructor'', ''hasOwnProperty'', ''isPrototypeOf'', ''propertyIsEnumerable'',
      ''toLocaleString'', ''toString'', ''valueOf'', ''__proto__'', ''__defineGetter__'',
      ''__defineSetter__'', ''__lookupGetter__'', ''__lookupSetter__'']"

definition dpGet :: "DataPoint \<Rightarrow> string \<Rightarrow> propval" where
  "dpGet d k =
     (if k = ''date'' then Val (JStr (date d))
      else case map_of (props d) k of
             Some v \<Rightarrow> Val v
           | None \<Rightarrow> if k \<in> set objectPrototype then Inherited else Val Undefined)"

text \<open>
  \<open>Number(value)\<close>: fixed by the language on undefined, null, booleans and numbers; the
  conversion of a string, and of the string an array or object converts to, is the
  parameter \<open>conv\<close>.
\<close>

fun toNumber :: "(jsv \<Rightarrow> jsnum) \<Rightarrow> jsv \<Rightarrow> jsnum" where
  "toNumber conv Undefined = NaN"
| "toNumber conv JNull = Fin 0"
| "toNumber conv (JBool b) = Fin (if b then 1 else 0)"
| "toNumber conv (JNum n) = n"
| "toNumber conv v = conv v"

fun numberOf :: "(jsv \<Rightarrow> jsnum) \<Rightarrow> propval \<Rightarrow> jsnum" where
  "numberOf conv (Val v) = toNumber conv v"
| "numberOf conv Inherited = NaN"

text \<open>
  The \<open>Map\<close> from a date to \<open>{value1?, value2?}\<close>, entries in insertion order. Setting a
  value of a date the map has keeps the entry's place; a new date goes last.
\<close>

type_synonym dateMap = "(string \<times> jsnum option \<times> jsnum option) list"

fun setValue1 :: "string \<Rightarrow> jsnum \<Rightarrow> dateMap \<Rightarrow> dateMap" where
  "setValue1 d v [] = [(d, Some v, None)]"
| "setValue1 d v ((k, a, b) # m) =
     (if k = d then (k, Some v, b) # m else (k, a, b) # setValue1 d v m)"

fun setValue2 :: "string \<Rightarrow> jsnum \<Rightarrow> dateMap \<Rightarrow> dateMap" where
  "setValue2 d v [] = [(d, None, Some v)]"
| "setValue2 d v ((k, a, b) # m) =
     (if k = d then (k, a, Some v) # m else (k, a, b) # setValue2 d v m)"

definition addValue1 :: "(jsv \<Rightarrow> jsnum) \<Rightarrow> string \<Rightarrow> dateMap \<Rightarrow> DataPoint \<Rightarrow> dateMap" where
  "addValue1 conv key m d =
     (let val = dpGet d key in
      if val \<noteq> Val Undefined \<and> val \<noteq> Val JNull
      then setValue1 (date d) (numberOf conv val) m else m)"

definition addValue2 :: "(jsv \<Rightarrow> jsnum) \<Rightarrow> string \<Rightarrow> dateMap \<Rightarrow> DataPoint \<Rightarrow> dateMap" where
  "addValue2 conv key m d =
     (let val = dpGet d key in
      if val \<noteq> Val Undefined \<and> val \<noteq> Val JNull
      then setValue2 (date d) (numberOf conv val) m else m)"

text \<open>The final \<open>forEach\<close>: the entries with both values, in the order of the sorted list.\<close>

fun alignedPairs :: "dateMap \<Rightarrow> jsnum list \<times> jsnum list \<times> string list" where
  "alignedPairs [] = ([], [], [])"
| "alignedPairs ((d, Some a, Some b) # m) =
     (case alignedPairs m of (x, y, dates) \<Rightarrow> (a # x, b # y, d # dates))"
| "alignedPairs (e # m) = alignedPairs m"

text \<open>
  alignDataForCorrelation returns \<open>{ x, y, dates }\<close>, here the triple. \<open>localeCompare\<close> is
  the host's collation of two strings, a parameter.
\<close>

definition alignDataForCorrelation ::
  "(jsv \<Rightarrow> jsnum) \<Rightarrow> (string \<Rightarrow> string \<Rightarrow> jsnum) \<Rightarrow> DataPoint list \<Rightarrow> DataPoint list
     \<Rightarrow> string \<Rightarrow> string \<Rightarrow> jsnum list \<times> jsnum list \<times> string list" where
  "alignDataForCorrelation conv localeCompare data1 data2 metric1Key metric2Key =
     (let dateMap1 = foldl (addValue1 conv metric1Key) [] data1;
          dateMap2 = foldl (addValue2 conv metric2Key) dateMap1 data2
      in alignedPairs (sortBy (\<lambda>e1 e2. localeCompare (fst e1) (fst e2)) dateMap2))"

text \<open>A number of the closed interval from 0 to 1.\<close>

fun inUnit :: "jsnum \<Rightarrow> bool" where
  "inUnit (Fin a) = (0 \<le> a \<and> a \<le> 1)"
| "inUnit a = False"






section \<open>Properties of the classifier\<close>

lemma startsWith_iff: "startsWith s p \<longleftrightarrow> (\<exists>ys. s = p @ ys)"
  by (induction s p rule: startsWith.induct) auto

lemma str_includes_iff: "str_includes s p \<longleftrightarrow> (\<exists>xs ys. s = xs @ p @ ys)"
proof (induction s)
  case Nil
  then show ?case by auto
next
  case (Cons c cs)
  show ?case
  proof
    assume "str_includes (c # cs) p"
    then consider "startsWith (c # cs) p" | "str_includes cs p" by auto
    then show "\<exists>xs ys. c # cs = xs @ p @ ys"
    proof cases
      case 1
      then obtain ys where "c # cs = p @ ys" by (auto simp: startsWith_iff)
      then have "c # cs = [] @ p @ ys" by simp
      then show ?thesis by blast
    next
      case 2
      then obtain xs ys where "cs = xs @ p @ ys" using Cons.IH by auto
      then have "c # cs = (c # xs) @ p @ ys" by simp
      then show ?thesis by blast
    qed
  next
    assume "\<exists>xs ys. c # cs = xs @ p @ ys"
    then obtain xs ys where e: "c # cs = xs @ p @ ys" by auto
    show "str_includes (c # cs) p"
    proof (cases xs)
      case Nil
      with e have "startsWith (c # cs) p" by (auto simp: startsWith_iff)
      then show ?thesis by simp
    next
      case (Cons x xs')
      with e have "cs = xs' @ p @ ys" by simp
      then have "str_includes cs p" using Cons.IH by blast
      then show ?thesis by simp
    qed
  qed
qed

lemma lower_summarized:
  "toLowerCase ''_summarizedActivities'' = ''_summarizedactivities''"
  by (simp add: toLowerCase_def lower_char_def)

text \<open>
  The second disjunct of the activities test never decides: a name that contains
  \<open>_summarizedActivities\<close> contains \<open>summarizedactivities\<close> once lowered.
\<close>

lemma summarized_redundant:
  assumes "str_includes s ''_summarizedActivities''"
  shows "str_includes (toLowerCase s) ''summarizedactivities''"
proof -
  from assms obtain xs ys where "s = xs @ ''_summarizedActivities'' @ ys"
    by (auto simp: str_includes_iff)
  then have "toLowerCase s
      = toLowerCase xs @ toLowerCase ''_summarizedActivities'' @ toLowerCase ys"
    by (simp add: toLowerCase_def)
  then have "toLowerCase s
      = (toLowerCase xs @ ''_'') @ ''summarizedactivities'' @ toLowerCase ys"
    by (simp add: lower_summarized)
  then show ?thesis unfolding str_includes_iff by blast
qed

text \<open>
  C6, as stated, fails: the chain is first-match-wins, but not every test ignores case.
  \<open>UDSFile_2024.json\<close> and \<open>udsfile_2024.json\<close> differ in letter case only, and so do
  \<open>sleepData.json\<close> and \<open>sleepData.JSON\<close>; each pair is split between two categories.
\<close>

theorem classify_case_counterexample:
  "toLowerCase ''UDSFile_2024.json'' = toLowerCase ''udsfile_2024.json''
   \<and> classify ''UDSFile_2024.json'' = Wellness
   \<and> classify ''udsfile_2024.json'' = UnknownJson
   \<and> toLowerCase ''sleepData.json'' = toLowerCase ''sleepData.JSON''
   \<and> classify ''sleepData.json'' = Sleep
   \<and> classify ''sleepData.JSON'' = Other"
  by (simp add: classify_def toLowerCase_def lower_char_def endsWith_def)

text \<open>
  C6, amended: the category of a file name is decided by the first-match-wins chain
  \<open>classify\<close>, whose \<open>sleep\<close>, \<open>hydration\<close> and \<open>summarizedactivities\<close> tests ignore letter case
  while the \<open>.json\<close> suffix test and the \<open>UDSFile_\<close> and \<open>MetricsMaxMetData_\<close> tests do not: two
  file names that differ only in letter case and agree on these three case-sensitive tests
  are assigned the same category.
\<close>

theorem classify_case_insensitive_part:
  assumes "toLowerCase a = toLowerCase b"
    and "endsWith a ''.json'' = endsWith b ''.json''"
    and "str_includes a ''UDSFile_'' = str_includes b ''UDSFile_''"
    and "str_includes a ''MetricsMaxMetData_'' = str_includes b ''MetricsMaxMetData_''"
  shows "classify a = classify b"
proof -
  have act: "(str_includes (toLowerCase f) ''summarizedactivities''
              \<or> str_includes f ''_summarizedActivities'')
             = str_includes (toLowerCase f) ''summarizedactivities''" for f
    using summarized_redundant by blast
  show ?thesis
    unfolding classify_def act using assms by simp
qed

theorem classify_case_insensitive_part_witness:
  "toLowerCase ''Hydration_Log.json'' = toLowerCase ''HYDRATION_log.json''
   \<and> endsWith ''Hydration_Log.json'' ''.json'' = endsWith ''HYDRATION_log.json'' ''.json''
   \<and> str_includes ''Hydration_Log.json'' ''UDSFile_''
       = str_includes ''HYDRATION_log.json'' ''UDSFile_''
   \<and> str_includes ''Hydration_Log.json'' ''MetricsMaxMetData_''
       = str_includes ''HYDRATION_log.json'' ''MetricsMaxMetData_''
   \<and> classify ''Hydration_Log.json'' = Hydration
   \<and> classify ''HYDRATION_log.json'' = classify ''Hydration_Log.json''"
  using classify_case_insensitive_part [of "''Hydration_Log.json''" "''HYDRATION_log.json''"]
  by (simp add: classify_def toLowerCase_def lower_char_def endsWith_def)

section \<open>Properties of the extractors\<close>

lemma readProp_object [simp]: "readProp (JObj kvs) k = Inr (getProp (JObj kvs) k)"
  by (simp add: readProp_def)

lemma readProp_array [simp]: "readProp (JArr xs) k = Inr Undefined"
  by (simp add: readProp_def)

lemma bindE_Inr [simp]: "bindE (Inr a) f = f a"
  by (simp add: bindE_def)

lemma bindE_Inl [simp]: "bindE (Inl e) f = Inl e"
  by (simp add: bindE_def)

text \<open>
  C1 asks that no extractor throws on any JSON payload. Four of the five do: each line is
  a payload \<open>JSON.parse\<close> can return and the exception the extractor raises on it.
  parseActivities and parseMetricsData read a property of \<open>data[0]\<close> without testing it,
  the \<open>find\<close> callback of parseWellnessData reads \<open>agg.type\<close> of a null element, and
  parseHydrationData formats an invalid date.
\<close>

theorem extractors_throw:
  "parseActivities h (JArr [JNull]) = Inl TypeError
   \<and> parseMetricsData (JArr [JNull]) = Inl TypeError
   \<and> parseWellnessData
        (JObj [(''calendarDate'', JStr ''2024-01-01''),
               (''allDayStress'', JObj [(''aggregatorList'', JArr [JNull])])])
       = Inl TypeError
   \<and> parseHydrationData h (JArr [JObj [(''valueInML'', JNum (Fin 250))]]) = Inl RangeError"
  by (simp add: parseActivities_def nestedExport_def parseMetricsData_def js_or_def
      parseWellnessData_def wellnessHead_def same_def totalAggregate_def optProp_def
      parseHydrationData_def hydrationItem_def hydrationRecord_def Date_toISOString_def
      readProp_def)

text \<open>parseSleepData does not throw: its one property read is guarded.\<close>

lemma parseSleepData_total: "\<exists>xs. parseSleepData d = Inr xs"
  by (cases d) (simp_all add: parseSleepData_def readProp_def bindE_def)

lemma readProps_object:
  "\<not> nullish d \<Longrightarrow> readProps d ks = Inr (map (\<lambda>(out, src). (out, getProp d src)) ks)"
  by (induction ks) (auto simp: readProp_def)



lemma truthy_not_nullish: "truthy v \<Longrightarrow> \<not> nullish v"
  by (cases v) auto

lemma parseWellnessData_dated:
  assumes "parseWellnessData d = Inr (Some w)"
  shows "datedDay w \<and> getProp w ''calendarDate'' = getProp d ''calendarDate''"
proof -
  from assms have t: "truthy d" and c: "truthy (getProp d ''calendarDate'')"
    by (auto simp: parseWellnessData_def split: if_splits)
  from t have nn: "\<not> nullish d" by (rule truthy_not_nullish)
  from assms t c obtain whole where
    "w = JObj (map (\<lambda>(out, src). (out, getProp d src)) wellnessHead
          @ map (\<lambda>(out, src). (out, optProp whole src)) wellnessStress
          @ map (\<lambda>(out, src). (out, getProp d src)) wellnessTail)"
    by (auto simp: parseWellnessData_def readProps_object [OF nn] bindE_def
        split: if_splits sum.splits)
  then have "getProp w ''calendarDate'' = getProp d ''calendarDate''"
    by (simp add: wellnessHead_def same_def)
  with c show ?thesis by (simp add: datedDay_def)
qed












section \<open>Properties of the sort\<close>

lemma mset_insertBy: "mset (insertBy cmp x xs) = add_mset x (mset xs)"
  by (induction xs) auto

lemma mset_sortBy: "mset (sortBy cmp xs) = mset xs"
  unfolding sortBy_def by (induction xs) (auto simp: mset_insertBy)


lemma length_sortBy: "length (sortBy cmp xs) = length xs"
  using mset_sortBy [of cmp xs] by (metis size_mset)


section \<open>Properties of the aggregator\<close>





lemma fst_parseGarminData:
  "fst (parseGarminData h files)
     = sortExport h (fst (foldl (step h (length files)) (emptyExport, 0, []) files))"
  by (simp add: parseGarminData_def split: prod.splits)




lemma hydration_without_calendarDate:
  "hydrationData (fst (parseGarminData h
      [\<lparr>name = ''HydrationLogFile_1.json'', dir = False,
        body = Json (JArr [JObj [(''valueInML'', JNum (Fin 250)),
                                (''timestampGMT'', JStr ''2024-01-01T08:00:00.0'')]])\<rparr>]))
   = [JObj [(''calendarDate'', Undefined), (''valueInML'', JNum (Fin 250)),
            (''timestampGMT'', JStr ''2024-01-01T08:00:00.0'')]]"
  by (simp add: parseGarminData_def step_def counted_def processFile_def emptyExport_def
      sortExport_def classify_def toLowerCase_def lower_char_def endsWith_def sortBy_def
      parseHydrationData_def hydrationItem_def hydrationRecord_def)


lemma filter_all: "list_all P xs \<Longrightarrow> filter P xs = xs"
  by (induction xs) auto

lemma parseSleepData_array: "parseSleepData (JArr items) = Inr (filter object_item items)"
  by (simp add: parseSleepData_def)

text \<open>
  C2 asks that an archive of one sleep file with N object-shaped records and one file that
  is not JSON yields N sleep records, no error, and a final progress value of 1.0 with the
  corrupt file counted as processed. The N records are there, in either order of the two
  files; but the \<open>continue\<close> in the handler of \<open>JSON.parse\<close> skips the counter and the
  callback, so the callback is called once, with 1/2.
\<close>

theorem corrupt_file_not_counted:
  assumes "classify nm = Sleep" and "list_all object_item items"
  shows "length (sleepData (fst (parseGarminData h
            [\<lparr>name = nm, dir = False, body = Json (JArr items)\<rparr>,
             \<lparr>name = other, dir = False, body = NotJson\<rparr>]))) = length items
       \<and> snd (parseGarminData h
            [\<lparr>name = nm, dir = False, body = Json (JArr items)\<rparr>,
             \<lparr>name = other, dir = False, body = NotJson\<rparr>]) = [1 / 2]
       \<and> length (sleepData (fst (parseGarminData h
            [\<lparr>name = other, dir = False, body = NotJson\<rparr>,
             \<lparr>name = nm, dir = False, body = Json (JArr items)\<rparr>]))) = length items
       \<and> snd (parseGarminData h
            [\<lparr>name = other, dir = False, body = NotJson\<rparr>,
             \<lparr>name = nm, dir = False, body = Json (JArr items)\<rparr>]) = [1 / 2]"
  using assms
  by (simp add: parseGarminData_def step_def counted_def processFile_def emptyExport_def
      sortExport_def parseSleepData_array filter_all length_sortBy)

theorem corrupt_file_not_counted_witness:
  "\<forall>h. classify ''sleepData.json'' = Sleep
     \<and> list_all object_item
          [JObj [(''sleepStartTimestampGMT'', JStr ''2024-01-01T22:00:00.0'')],
           JObj [(''sleepStartTimestampGMT'', JStr ''2024-01-02T22:30:00.0'')]]
     \<and> length (sleepData (fst (parseGarminData h
            [\<lparr>name = ''sleepData.json'', dir = False,
              body = Json (JArr
                [JObj [(''sleepStartTimestampGMT'', JStr ''2024-01-01T22:00:00.0'')],
                 JObj [(''sleepStartTimestampGMT'', JStr ''2024-01-02T22:30:00.0'')]])\<rparr>,
             \<lparr>name = ''notes.txt'', dir = False, body = NotJson\<rparr>]))) = 2
     \<and> snd (parseGarminData h
            [\<lparr>name = ''sleepData.json'', dir = False,
              body = Json (JArr
                [JObj [(''sleepStartTimestampGMT'', JStr ''2024-01-01T22:00:00.0'')],
                 JObj [(''sleepStartTimestampGMT'', JStr ''2024-01-02T22:30:00.0'')]])\<rparr>,
             \<lparr>name = ''notes.txt'', dir = False, body = NotJson\<rparr>]) = [1 / 2]"
proof
  fix h
  have c: "classify ''sleepData.json'' = Sleep"
    by (simp add: classify_def toLowerCase_def lower_char_def endsWith_def)
  have i: "list_all object_item
          [JObj [(''sleepStartTimestampGMT'', JStr ''2024-01-01T22:00:00.0'')],
           JObj [(''sleepStartTimestampGMT'', JStr ''2024-01-02T22:30:00.0'')]]"
    by (simp add: object_item_def)
  from corrupt_file_not_counted [OF c i, of h "''notes.txt''"] c i
  show "classify ''sleepData.json'' = Sleep
     \<and> list_all object_item
          [JObj [(''sleepStartTimestampGMT'', JStr ''2024-01-01T22:00:00.0'')],
           JObj [(''sleepStartTimestampGMT'', JStr ''2024-01-02T22:30:00.0'')]]
     \<and> length (sleepData (fst (parseGarminData h
            [\<lparr>name = ''sleepData.json'', dir = False,
              body = Json (JArr
                [JObj [(''sleepStartTimestampGMT'', JStr ''2024-01-01T22:00:00.0'')],
                 JObj [(''sleepStartTimestampGMT'', JStr ''2024-01-02T22:30:00.0'')]])\<rparr>,
             \<lparr>name = ''notes.txt'', dir = False, body = NotJson\<rparr>]))) = 2
     \<and> snd (parseGarminData h
            [\<lparr>name = ''sleepData.json'', dir = False,
              body = Json (JArr
                [JObj [(''sleepStartTimestampGMT'', JStr ''2024-01-01T22:00:00.0'')],
                 JObj [(''sleepStartTimestampGMT'', JStr ''2024-01-02T22:30:00.0'')]])\<rparr>,
             \<lparr>name = ''notes.txt'', dir = False, body = NotJson\<rparr>]) = [1 / 2]"
    by simp
qed

text \<open>
  C3 asks that every collection is sorted by its temporal field. The comparator of the
  activities collection reads \<open>startTimeGmt\<close>, which no stored activity has: the records
  parseActivities builds carry \<open>startTimeGMT\<close>. Both dates are invalid, the comparator's
  value is NaN, and the stable sort leaves the order of the file: here the activity of
  2024-01-02 (1704153600000) stays before that of 2024-01-01 (1704067200000).
\<close>

theorem activities_left_unsorted:
  "map (\<lambda>a. getProp a ''startTimeGMT'')
     (activities (fst (parseGarminData h
        [\<lparr>name = ''user_summarizedActivities.json'', dir = False,
          body = Json (JArr [JObj [(''summarizedActivitiesExport'',
             JArr [JObj [(''activityType'', JStr ''running''),
                         (''startTimeGmt'', JNum (Fin 1704153600000)),
                         (''startTimeLocal'', JNum (Fin 1704153600000))],
                   JObj [(''activityType'', JStr ''running''),
                         (''startTimeGmt'', JNum (Fin 1704067200000)),
                         (''startTimeLocal'', JNum (Fin 1704067200000))]])]])\<rparr>])))
   = [JStr (Date_iso h 1704153600000), JStr (Date_iso h 1704067200000)]"
  by (simp add: parseGarminData_def step_def counted_def processFile_def emptyExport_def
      sortExport_def classify_def toLowerCase_def lower_char_def endsWith_def
      parseActivities_def nestedExport_def exportItem_def activityRecord_def
      readProps_object Date_toISOString_def TimeClip_def js_or_def activityRest_def same_def
      sortBy_def byDate_def)

lemma findTotal_defined:
  "list_all (\<lambda>agg. \<not> nullish agg) aggs \<Longrightarrow> \<exists>v. findTotal aggs = Inr v"
  by (induction aggs) (auto simp: readProp_def)

lemma totalAggregate_defined:
  assumes "perDayObject d"
  shows "\<exists>v. totalAggregate d = Inr v"
proof -
  from assms obtain kvs where d: "d = JObj kvs"
    by (cases d) (auto simp: perDayObject_def)
  from assms have "nullish (optProp (getProp d ''allDayStress'') ''aggregatorList'')
      \<or> (isArray (optProp (getProp d ''allDayStress'') ''aggregatorList'')
          \<and> list_all (\<lambda>agg. \<not> nullish agg)
               (elems (optProp (getProp d ''allDayStress'') ''aggregatorList'')))"
    by (simp add: perDayObject_def Let_def)
  then show ?thesis
    unfolding totalAggregate_def d
    by (auto simp: Let_def findTotal_defined)
qed

lemma parseWellnessData_perDay:
  assumes "perDayObject d"
  shows "parseWellnessData d = (if datedDay d then Inr (Some (wellnessRecord d)) else Inr None)"
proof -
  from assms obtain kvs where d: "d = JObj kvs"
    by (cases d) (auto simp: perDayObject_def)
  from totalAggregate_defined [OF assms] obtain v where v: "totalAggregate d = Inr v" by blast
  have nn: "\<not> nullish d" by (simp add: d)
  have "datedDay d \<Longrightarrow> \<exists>w. parseWellnessData d = Inr (Some w)"
    by (simp add: parseWellnessData_def datedDay_def readProps_object [OF nn] v) (simp add: d)
  moreover have "\<not> datedDay d \<Longrightarrow> parseWellnessData d = Inr None"
    by (simp add: parseWellnessData_def datedDay_def)
  ultimately show ?thesis by (auto simp: wellnessRecord_def)
qed

lemma pushWellness_perDay:
  "list_all perDayObject items
   \<Longrightarrow> pushWellness acc items = acc @ map wellnessRecord (filter datedDay items)"
  by (induction items arbitrary: acc) (auto simp: parseWellnessData_perDay)

lemma pushWellness_grows: "\<exists>ws. pushWellness acc rs = acc @ ws"
proof (induction rs arbitrary: acc)
  case Nil
  then show ?case by simp
next
  case (Cons r rs)
  show ?case
  proof (cases "parseWellnessData r")
    case (Inl e)
    then show ?thesis by simp
  next
    case (Inr opt)
    show ?thesis
    proof (cases opt)
      case None
      with Inr Cons.IH [of acc] show ?thesis by simp
    next
      case (Some w)
      from Cons.IH [of "acc @ [w]"] obtain ws where "pushWellness (acc @ [w]) rs = (acc @ [w]) @ ws"
        by blast
      with Inr Some have "pushWellness acc (r # rs) = acc @ (w # ws)" by simp
      then show ?thesis by blast
    qed
  qed
qed

lemma wellness_processFile_grows:
  "\<exists>ws. wellnessData (processFile h f d r) = wellnessData r @ ws"
  using pushWellness_grows [of "wellnessData r" "elems d"]
  by (cases "classify f") (auto simp: processFile_def split: sum.splits option.splits)

lemma wellness_step_grows:
  "mset (wellnessData (fst st)) \<subseteq># mset (wellnessData (fst (step h n st e)))"
proof -
  obtain r p g where st: "st = (r, p, g)" by (cases st)
  show ?thesis
  proof (cases "body e")
    case (Json d)
    from wellness_processFile_grows [of h "name e" d r] obtain ws
      where "wellnessData (processFile h (name e) d r) = wellnessData r @ ws" by blast
    with Json st show ?thesis by (simp add: step_def counted_def)
  qed (simp_all add: st step_def counted_def)
qed

lemma wellness_foldl_grows:
  "mset (wellnessData (fst st)) \<subseteq># mset (wellnessData (fst (foldl (step h n) st es)))"
proof (induction es arbitrary: st)
  case Nil
  then show ?case by simp
next
  case (Cons e es)
  have "mset (wellnessData (fst st)) \<subseteq># mset (wellnessData (fst (step h n st e)))"
    by (rule wellness_step_grows)
  also have "\<dots> \<subseteq># mset (wellnessData (fst (foldl (step h n) (step h n st e) es)))"
    by (rule Cons.IH)
  finally show ?case by simp
qed

lemma wellness_step_list:
  assumes "\<not> dir e" and "classify (name e) = Wellness" and "body e = Json (JArr items)"
    and "list_all perDayObject items"
  shows "wellnessData (fst (step h n st e))
         = wellnessData (fst st) @ map wellnessRecord (filter datedDay items)"
  using assms
  by (cases st) (simp add: step_def counted_def processFile_def pushWellness_perDay)

text \<open>
  When every element of the list of a daily-summary (\<open>UDSFile_\<close>) file is a per-day object
  whose \<open>aggregatorList\<close> holds no null entry, every element with a (truthy) \<open>calendarDate\<close>
  is extracted: parseWellnessData returns a record with that date for it, and the wellness
  collection of the result holds the records of all such elements, each as often as the
  list does, whatever else the archive holds.
\<close>

lemma wellness_list_extracted:
  assumes "e \<in> set files" and "\<not> dir e" and "classify (name e) = Wellness"
    and "body e = Json (JArr items)" and "list_all perDayObject items"
  shows "(\<forall>d\<in>set items. datedDay d \<longrightarrow>
            parseWellnessData d = Inr (Some (wellnessRecord d))
            \<and> getProp (wellnessRecord d) ''calendarDate'' = getProp d ''calendarDate'')
       \<and> mset (map wellnessRecord (filter datedDay items))
            \<subseteq># mset (wellnessData (fst (parseGarminData h files)))"
proof
  show "\<forall>d\<in>set items. datedDay d \<longrightarrow>
            parseWellnessData d = Inr (Some (wellnessRecord d))
            \<and> getProp (wellnessRecord d) ''calendarDate'' = getProp d ''calendarDate''"
  proof (intro ballI impI)
    fix d assume "d \<in> set items" and dd: "datedDay d"
    with assms(5) have "perDayObject d" by (simp add: list_all_iff)
    with dd have p: "parseWellnessData d = Inr (Some (wellnessRecord d))"
      by (simp add: parseWellnessData_perDay)
    with parseWellnessData_dated [OF p]
    show "parseWellnessData d = Inr (Some (wellnessRecord d))
            \<and> getProp (wellnessRecord d) ''calendarDate'' = getProp d ''calendarDate''"
      by simp
  qed
next
  from assms(1) obtain pre post where files: "files = pre @ e # post"
    by (auto dest: split_list)
  define n where "n = length files"
  define st where "st = foldl (step h n) (emptyExport, 0, []) pre"
  have "mset (map wellnessRecord (filter datedDay items))
          \<subseteq># mset (wellnessData (fst (step h n st e)))"
    by (simp add: wellness_step_list [OF assms(2-5)])
  also have "\<dots> \<subseteq># mset (wellnessData (fst (foldl (step h n) (step h n st e) post)))"
    by (rule wellness_foldl_grows)
  also have "foldl (step h n) (step h n st e) post
               = foldl (step h n) (emptyExport, 0, []) files"
    by (simp add: files st_def)
  finally show "mset (map wellnessRecord (filter datedDay items))
            \<subseteq># mset (wellnessData (fst (parseGarminData h files)))"
    by (simp add: fst_parseGarminData sortExport_def mset_sortBy n_def)
qed

lemma wellness_list_extracted_example:
  "\<forall>h.
     (let items =
            [JObj [(''calendarDate'', JStr ''2024-01-01''), (''totalSteps'', JNum (Fin 8000))],
             JObj [(''totalSteps'', JNum (Fin 12))],
             JObj [(''calendarDate'', JStr ''2024-01-02''),
                   (''allDayStress'', JObj [(''aggregatorList'',
                      JArr [JObj [(''type'', JStr ''TOTAL''),
                                  (''averageStressLevel'', JNum (Fin 30))]])])]];
          e = \<lparr>name = ''UDSFile_2024.json'', dir = False, body = Json (JArr items)\<rparr>
      in e \<in> set [e] \<and> \<not> dir e \<and> classify (name e) = Wellness
         \<and> body e = Json (JArr items) \<and> list_all perDayObject items
         \<and> length (filter datedDay items) = 2
         \<and> mset (map wellnessRecord (filter datedDay items))
              \<subseteq># mset (wellnessData (fst (parseGarminData h [e])))
         \<and> length (wellnessData (fst (parseGarminData h [e]))) = 2)"
proof
  fix h
  define items where "items =
            [JObj [(''calendarDate'', JStr ''2024-01-01''), (''totalSteps'', JNum (Fin 8000))],
             JObj [(''totalSteps'', JNum (Fin 12))],
             JObj [(''calendarDate'', JStr ''2024-01-02''),
                   (''allDayStress'', JObj [(''aggregatorList'',
                      JArr [JObj [(''type'', JStr ''TOTAL''),
                                  (''averageStressLevel'', JNum (Fin 30))]])])]]"
  define e where "e = \<lparr>name = ''UDSFile_2024.json'', dir = False, body = Json (JArr items)\<rparr>"
  have c: "classify (name e) = Wellness"
    by (simp add: e_def classify_def toLowerCase_def lower_char_def endsWith_def)
  have p: "list_all perDayObject items"
    by (simp add: items_def perDayObject_def optProp_def)
  have d: "filter datedDay items = [items ! 0, items ! 2]"
    by (simp add: items_def datedDay_def)
  have m: "e \<in> set [e]" "\<not> dir e" "body e = Json (JArr items)"
    by (simp_all add: e_def)
  from wellness_list_extracted [OF m(1,2) c m(3) p, of h]
  have incl: "mset (map wellnessRecord (filter datedDay items))
              \<subseteq># mset (wellnessData (fst (parseGarminData h [e])))"
    by simp
  have len: "length (wellnessData (fst (parseGarminData h [e]))) = 2"
    using m c p
    by (simp add: fst_parseGarminData sortExport_def length_sortBy step_def counted_def
        processFile_def pushWellness_perDay emptyExport_def d)
  show "let items =
            [JObj [(''calendarDate'', JStr ''2024-01-01''), (''totalSteps'', JNum (Fin 8000))],
             JObj [(''totalSteps'', JNum (Fin 12))],
             JObj [(''calendarDate'', JStr ''2024-01-02''),
                   (''allDayStress'', JObj [(''aggregatorList'',
                      JArr [JObj [(''type'', JStr ''TOTAL''),
                                  (''averageStressLevel'', JNum (Fin 30))]])])]];
          e = \<lparr>name = ''UDSFile_2024.json'', dir = False, body = Json (JArr items)\<rparr>
      in e \<in> set [e] \<and> \<not> dir e \<and> classify (name e) = Wellness
         \<and> body e = Json (JArr items) \<and> list_all perDayObject items
         \<and> length (filter datedDay items) = 2
         \<and> mset (map wellnessRecord (filter datedDay items))
              \<subseteq># mset (wellnessData (fst (parseGarminData h [e])))
         \<and> length (wellnessData (fst (parseGarminData h [e]))) = 2"
    unfolding Let_def items_def [symmetric] e_def [symmetric]
    using m c p incl len by (simp add: d)
qed

text \<open>
  C5 asks that every element of a daily-summary list that carries a calendar date is
  extracted. An exception of parseWellnessData ends the \<open>forEach\<close>: a dated element whose
  \<open>aggregatorList\<close> holds a null makes the \<open>find\<close> callback throw, and neither it nor any
  element after it is extracted. Of two dated elements none is stored when the first is
  such an element; of three, only the first when the second is.
\<close>

theorem wellness_list_abandoned:
  "wellnessData (fst (parseGarminData h
      [\<lparr>name = ''UDSFile_2024.json'', dir = False,
        body = Json (JArr
          [JObj [(''calendarDate'', JStr ''2024-01-01''),
                 (''allDayStress'', JObj [(''aggregatorList'', JArr [JNull])])],
           JObj [(''calendarDate'', JStr ''2024-01-02'')]])\<rparr>])) = []
   \<and> map (\<lambda>w. getProp w ''calendarDate'')
        (wellnessData (fst (parseGarminData h
          [\<lparr>name = ''UDSFile_2024.json'', dir = False,
            body = Json (JArr
              [JObj [(''calendarDate'', JStr ''2024-01-01'')],
               JObj [(''calendarDate'', JStr ''2024-01-02''),
                     (''allDayStress'', JObj [(''aggregatorList'', JArr [JNull])])],
               JObj [(''calendarDate'', JStr ''2024-01-03'')]])\<rparr>])))
       = [JStr ''2024-01-01'']"
  by (simp add: parseGarminData_def step_def counted_def processFile_def emptyExport_def
      sortExport_def classify_def toLowerCase_def lower_char_def endsWith_def sortBy_def
      parseWellnessData_def wellnessHead_def wellnessTail_def wellnessStress_def same_def
      totalAggregate_def optProp_def readProp_def)

section \<open>Properties of the correlation engine\<close>

text \<open>
  C7: calculateCorrelation returns exactly \<open>{r: 0, pValue: 1}\<close> whenever the two inputs
  differ in length, or their length is less than 3 (so for any two inputs of length 2), or
  the denominator is exactly zero: the value the source compares with 0, which is the case
  when the product of the two variance terms under the square root is zero.
\<close>

theorem correlation_fails_soft:
  assumes "length x \<noteq> length y \<or> length x < 3 \<or> denominator rnd x y = Fin 0
           \<or> (varianceProduct rnd x y = Fin 0 \<and> rnd 0 = Fin 0)"
  shows "calculateCorrelation rnd x y = (Fin 0, Fin 1)"
  using assms by (auto simp: calculateCorrelation_def denominator_def)

theorem correlation_fails_soft_witness:
  "varianceProduct Fin [Fin 1, Fin 1, Fin 1] [Fin 1, Fin 2, Fin 3] = Fin 0
   \<and> denominator Fin [Fin 1, Fin 1, Fin 1] [Fin 1, Fin 2, Fin 3] = Fin 0
   \<and> calculateCorrelation Fin [Fin 1, Fin 1, Fin 1] [Fin 1, Fin 2, Fin 3] = (Fin 0, Fin 1)
   \<and> length [Fin 5, Fin 7] < (3::nat)
   \<and> calculateCorrelation Fin [Fin 5, Fin 7] [Fin 2, Fin 9] = (Fin 0, Fin 1)"
proof -
  have v: "varianceProduct Fin [Fin 1, Fin 1, Fin 1] [Fin 1, Fin 2, Fin 3] = Fin 0"
    by (simp add: varianceProduct_def sumOf_def sumOfSquares_def jsub_def)
  then have d: "denominator Fin [Fin 1, Fin 1, Fin 1] [Fin 1, Fin 2, Fin 3] = Fin 0"
    by (simp add: denominator_def)
  have l: "length [Fin 5, Fin 7] < (3::nat)" by simp
  from correlation_fails_soft [of "[Fin 1, Fin 1, Fin 1]" "[Fin 1, Fin 2, Fin 3]" Fin]
    correlation_fails_soft [of "[Fin 5, Fin 7]" "[Fin 2, Fin 9]" Fin] v d l
  show ?thesis by simp
qed

text \<open>A worked example: the correlation of \<open>[1, 2, 3]\<close> with itself.\<close>

lemma sqrt_36: "sqrt 36 = 6"
proof -
  have "sqrt 36 = sqrt (6\<^sup>2)" by simp
  also have "\<dots> = 6" by simp
  finally show ?thesis .
qed

lemma r_example: "fst (calculateCorrelation Fin [Fin 1, Fin 2, Fin 3] [Fin 1, Fin 2, Fin 3]) = Fin 1"
  by (simp add: calculateCorrelation_def Let_def denominator_def varianceProduct_def
      numerator_def sumOf_def sumOfSquares_def sumOfProducts_def jsub_def sqrt_36)

lemma p_example:
  "snd (calculateCorrelation Fin [Fin 1, Fin 2, Fin 3] [Fin 1, Fin 2, Fin 3]) = Fin 0"
  by (simp add: calculateCorrelation_def Let_def denominator_def varianceProduct_def approximatePValue_def
      numerator_def sumOf_def sumOfSquares_def sumOfProducts_def jsub_def sqrt_36
      jmin_def jmax_def)

lemma clamp_unit:
  "jmin (Fin 1) (jmax (Fin 0) v) = NaN \<or> inUnit (jmin (Fin 1) (jmax (Fin 0) v))"
  by (cases v) (auto simp: jmin_def jmax_def)

text \<open>
  C10, amended: for every pair of numeric lists, the pValue calculateCorrelation returns
  lies in the closed interval from 0 to 1 or is NaN. The early returns give 1, and
  \<open>Math.min(1, Math.max(0, v))\<close> clamps every \<open>v\<close> but NaN, which it passes on.
\<close>

theorem pValue_unit_or_NaN:
  "snd (calculateCorrelation rnd x y) = NaN \<or> inUnit (snd (calculateCorrelation rnd x y))"
  using clamp_unit by (auto simp: calculateCorrelation_def approximatePValue_def Let_def)

theorem pValue_unit_or_NaN_witness:
  "snd (calculateCorrelation Fin [Fin 1, Fin 2, Fin 3] [Fin 1, Fin 2, Fin 3]) \<noteq> NaN
   \<and> inUnit (snd (calculateCorrelation Fin [Fin 1, Fin 2, Fin 3] [Fin 1, Fin 2, Fin 3]))"
  using pValue_unit_or_NaN [of Fin "[Fin 1, Fin 2, Fin 3]" "[Fin 1, Fin 2, Fin 3]"]
  by (simp add: p_example)

text \<open>
  C10, as stated, fails: a NaN among the inputs (what \<open>Number\<close> makes of a non-numeric
  string) reaches the clamp and comes out as the pValue.
\<close>

theorem pValue_NaN:
  "snd (calculateCorrelation Fin [NaN, Fin 1, Fin 2] [Fin 1, Fin 2, Fin 3]) = NaN"
  by (simp add: calculateCorrelation_def approximatePValue_def Let_def denominator_def varianceProduct_def
      numerator_def sumOf_def sumOfSquares_def sumOfProducts_def jsub_def jmin_def jmax_def)

lemma laggedPairs_zero:
  assumes "0 \<le> i" and "length x = length y" and "int (length x) \<le> n"
  shows "laggedPairs x y n 0 i = drop (nat i) (zip x y)"
  using assms
proof (induction x y n "0::int" i rule: laggedPairs.induct)
  case (1 x y n i)
  show ?case
  proof (cases "i < n")
    case False
    with 1 have "nat i \<ge> length (zip x y)" by simp
    with False show ?thesis by (simp add: laggedPairs.simps [of x y n 0 i])
  next
    case True
    show ?thesis
    proof (cases "i < int (length x)")
      case inside: True
      with 1 have a: "elemAt x i = Some (x ! nat i)" "elemAt y i = Some (y ! nat i)"
        by (simp_all add: elemAt_def)
      from 1 True a have rest: "laggedPairs x y n 0 (i + 1) = drop (nat (i + 1)) (zip x y)"
        by simp
      have d: "drop (nat i) (zip x y) = (x ! nat i, y ! nat i) # drop (Suc (nat i)) (zip x y)"
        using inside 1 by (simp add: Cons_nth_drop_Suc [symmetric])
      have s: "nat (i + 1) = Suc (nat i)" using 1 by simp
      from True a rest d s show ?thesis
        by (simp add: laggedPairs.simps [of x y n 0 i])
    next
      case outside: False
      with 1 have a: "elemAt x i = None" by (simp add: elemAt_def)
      from 1 True a have rest: "laggedPairs x y n 0 (i + 1) = drop (nat (i + 1)) (zip x y)"
        by simp
      from outside 1 have "drop (nat i) (zip x y) = []" "drop (nat (i + 1)) (zip x y) = []"
        by simp_all
      with True a rest show ?thesis
        by (simp add: laggedPairs.simps [of x y n 0 i])
    qed
  qed
qed

text \<open>
  C9, amended: for all \<open>x\<close>, \<open>y\<close> of one length and all \<open>dates\<close> at least as long (so for the
  three sequences alignDataForCorrelation returns), calculateLaggedCorrelation with a lag
  of 0 returns the pair calculateCorrelation returns on \<open>x\<close> and \<open>y\<close>.
\<close>

theorem lag_zero_is_correlation:
  assumes "length x = length y" and "length x \<le> length dates"
  shows "calculateLaggedCorrelation rnd x y dates 0 = calculateCorrelation rnd x y"
proof -
  have "laggedPairs x y (int (length dates)) 0 0 = zip x y"
    using laggedPairs_zero [of 0 x y "int (length dates)"] assms by simp
  moreover have "map fst (zip x y) = x" "map snd (zip x y) = y"
    using assms(1) by simp_all
  ultimately show ?thesis
    using assms(1) by (simp add: calculateLaggedCorrelation_def calculateCorrelation_def)
qed

theorem lag_zero_is_correlation_witness:
  "length [Fin 1, Fin 2, Fin 3] = length [Fin 1, Fin 2, Fin 3]
   \<and> length [Fin 1, Fin 2, Fin 3] \<le> length [''2024-01-01'', ''2024-01-02'', ''2024-01-03'']
   \<and> calculateLaggedCorrelation Fin [Fin 1, Fin 2, Fin 3] [Fin 1, Fin 2, Fin 3]
         [''2024-01-01'', ''2024-01-02'', ''2024-01-03''] 0
       = calculateCorrelation Fin [Fin 1, Fin 2, Fin 3] [Fin 1, Fin 2, Fin 3]
   \<and> fst (calculateLaggedCorrelation Fin [Fin 1, Fin 2, Fin 3] [Fin 1, Fin 2, Fin 3]
         [''2024-01-01'', ''2024-01-02'', ''2024-01-03''] 0) = Fin 1"
  using lag_zero_is_correlation [of "[Fin 1, Fin 2, Fin 3]" "[Fin 1, Fin 2, Fin 3]"
      "[''2024-01-01'', ''2024-01-02'', ''2024-01-03'']" Fin]
  by (simp add: r_example)

text \<open>
  C9, as stated, fails: the loop runs over the positions of \<open>dates\<close>, so with no dates
  there are no pairs and the result is \<open>{r: 0, pValue: 1}\<close>, while the correlation of
  \<open>[1, 2, 3]\<close> with itself has \<open>r = 1\<close>.
\<close>

theorem lag_zero_differs:
  "calculateLaggedCorrelation Fin [Fin 1, Fin 2, Fin 3] [Fin 1, Fin 2, Fin 3] [] 0 = (Fin 0, Fin 1)
   \<and> fst (calculateCorrelation Fin [Fin 1, Fin 2, Fin 3] [Fin 1, Fin 2, Fin 3]) = Fin 1"
  by (simp add: r_example calculateLaggedCorrelation_def laggedPairs.simps [of _ _ 0 0 0])

section \<open>Properties of the alignment\<close>















text \<open>
  A key that names a method of \<open>Object.prototype\<close> has a value in every data point: the
  date is returned, with NaN for the number.
\<close>

lemma aligned_inherited_key:
  "alignDataForCorrelation conv lc
     [\<lparr>date = ''2024-01-01'', props = [(''steps'', JNum (Fin 1))]\<rparr>]
     [\<lparr>date = ''2024-01-01'', props = [(''stress'', JNum (Fin 3))]\<rparr>]
     ''toString'' ''stress''
   = ([NaN], [Fin 3], [''2024-01-01''])"
  by (simp add: alignDataForCorrelation_def addValue1_def addValue2_def dpGet_def Let_def
      sortBy_def objectPrototype_def)

end
